theory Spec2Isabelle
  imports Main "HOL-Library.Char_ord" "HOL-Library.List_Lexorder"
begin

section \<open>Python values and the collaborators of \<^verbatim>\<open>prefect.runtime.task_run\<close>\<close>

text \<open>
  The module \<^verbatim>\<open>src/prefect/runtime/task_run.py\<close> exposes the attributes of the
  current task run through a module-level \<^verbatim>\<open>__getattr__\<close>. Its results are
  dynamically typed, so they are embedded as one datatype of Python values. Strings are
  \<open>string\<close>; attribute names and environment keys are taken to be ASCII.

  Floats and date-times are never computed with by this module, only produced by
  collaborators (the builtin \<^verbatim>\<open>float\<close>, \<^verbatim>\<open>dateparser\<close>,
  \<^verbatim>\<open>pendulum\<close>), so their carriers stay opaque. \<open>PyDateTime\<close> is an
  instance of \<^verbatim>\<open>pendulum.DateTime\<close>, \<open>PyObject\<close> any object of another
  class (the values of \<^verbatim>\<open>parameters\<close> are \<^verbatim>\<open>Any\<close>).
\<close>

typedecl pyfloat
typedecl datetime

datatype pyval =
    PyNone
  | PyBool bool
  | PyInt int
  | PyFloat pyfloat
  | PyDateTime datetime
  | PyStr string
  | PyList "pyval list"
  | PyDict "(string \<times> pyval) list"
  | PyObject nat

text \<open>
  The two exceptions that leave \<^verbatim>\<open>__getattr__\<close>: the
  \<^verbatim>\<open>AttributeError\<close> it raises itself (line 61; the message is built from the
  module name and the requested name, which the constructor carries), and the
  \<^verbatim>\<open>ValueError\<close> raised by \<^verbatim>\<open>int\<close>, \<^verbatim>\<open>float\<close> and
  \<^verbatim>\<open>pendulum.instance\<close> on text they cannot convert.
\<close>

datatype error = AttributeError string | ValueError

text \<open>
  Builtins and libraries the module calls but does not define. \<open>py_str\<close> is
  \<^verbatim>\<open>str\<close> on a task-run identifier (whose type \<open>'i\<close> is declared outside the
  module); \<open>py_int\<close> and \<open>py_float\<close> are \<^verbatim>\<open>int\<close> and \<^verbatim>\<open>float\<close> on a
  string, \<open>None\<close> standing for the \<^verbatim>\<open>ValueError\<close> they raise;
  \<open>dateparser_parse\<close> returns Python's \<^verbatim>\<open>None\<close> on unparsable text, which
  \<^verbatim>\<open>pendulum.instance\<close> then rejects.
\<close>

record 'i pylib =
  py_str :: "'i \<Rightarrow> string"
  py_int :: "string \<Rightarrow> int option"
  py_float :: "string \<Rightarrow> pyfloat option"
  dateparser_parse :: "string \<Rightarrow> datetime option"
  pendulum_instance :: "datetime \<Rightarrow> datetime"

text \<open>
  \<^verbatim>\<open>TaskRunContext\<close> is imported from \<^verbatim>\<open>prefect.context\<close>. The module reads
  \<^verbatim>\<open>task_run.id\<close>, \<^verbatim>\<open>task_run.tags\<close>, \<^verbatim>\<open>task_run.name\<close>,
  \<^verbatim>\<open>task.name\<close> and \<^verbatim>\<open>parameters\<close>. The fields of the task run and
  the parameters are typed as the resolvers' return annotations say
  (\<^verbatim>\<open>List[str]\<close>, \<^verbatim>\<open>Optional[str]\<close>, \<^verbatim>\<open>Dict[str, Any]\<close>). The
  name of the task is whatever the task was declared with: line 95 returns it as it is,
  without the \<^verbatim>\<open>str\<close> that line 71 applies to the identifier, and nothing in
  the module checks it, so it is an arbitrary Python value.
  \<^verbatim>\<open>TaskRunContext.get()\<close> returns the active context or \<^verbatim>\<open>None\<close>: the
  ambient context is an explicit \<open>'i TaskRunContext option\<close> argument.
\<close>

record 'i TaskRun =
  tr_id :: 'i
  tr_tags :: "string list"
  tr_name :: string

record Task =
  t_name :: pyval

record 'i TaskRunContext =
  task_run :: "'i TaskRun"
  task :: Task
  parameters :: "(string \<times> pyval) list"

section \<open>The resolvers\<close>

text \<open>\<^verbatim>\<open>get_id\<close> (lines 68-71) has no \<^verbatim>\<open>else\<close>: without a context the
  function body ends and Python returns \<^verbatim>\<open>None\<close>.\<close>

definition get_id :: "'i pylib \<Rightarrow> 'i TaskRunContext option \<Rightarrow> pyval" where
  "get_id L task_run_ctx =
     (case task_run_ctx of
        Some c \<Rightarrow> PyStr (py_str L (tr_id (task_run c)))
      | None \<Rightarrow> PyNone)"

definition get_tags :: "'i TaskRunContext option \<Rightarrow> pyval" where
  "get_tags task_run_ctx =
     (case task_run_ctx of
        None \<Rightarrow> PyList []
      | Some c \<Rightarrow> PyList (map PyStr (tr_tags (task_run c))))"

definition get_name :: "'i TaskRunContext option \<Rightarrow> pyval" where
  "get_name task_run_ctx =
     (case task_run_ctx of
        None \<Rightarrow> PyNone
      | Some c \<Rightarrow> PyStr (tr_name (task_run c)))"

definition get_task_name :: "'i TaskRunContext option \<Rightarrow> pyval" where
  "get_task_name task_run_ctx =
     (case task_run_ctx of
        None \<Rightarrow> PyNone
      | Some c \<Rightarrow> t_name (task c))"

definition get_parameters :: "'i TaskRunContext option \<Rightarrow> pyval" where
  "get_parameters task_run_ctx =
     (case task_run_ctx of
        Some c \<Rightarrow> PyDict (parameters c)
      | None \<Rightarrow> PyDict [])"

text \<open>The registry \<^verbatim>\<open>FIELDS\<close> (lines 106-112), a dict literal in source order;
  \<^verbatim>\<open>FIELDS.get(name)\<close> is \<open>map_of (FIELDS L) name\<close>.\<close>

definition FIELDS :: "'i pylib \<Rightarrow> (string \<times> ('i TaskRunContext option \<Rightarrow> pyval)) list" where
  "FIELDS L =
     [(''id'', get_id L),
      (''tags'', get_tags),
      (''name'', get_name),
      (''parameters'', get_parameters),
      (''task_name'', get_task_name)]"

section \<open>Attribute access\<close>

text \<open>\<^verbatim>\<open>str.upper\<close> on ASCII text: the letters a-z move to A-Z, every other
  character stays.\<close>

definition upper_char :: "char \<Rightarrow> char" where
  "upper_char c =
     (let n = (of_char c :: nat)
      in if 97 \<le> n \<and> n \<le> 122 then char_of (n - 32) else c)"

definition upper :: "string \<Rightarrow> string" where
  "upper s = map upper_char s"

definition env_key_of :: "string \<Rightarrow> string" where
  "env_key_of name = ''PREFECT__RUNTIME__TASK_RUN__'' @ upper name"

text \<open>Lines 44-54: the override text is cast to the type of the real value. The
  \<^verbatim>\<open>isinstance\<close> chain is tried in source order (\<^verbatim>\<open>bool\<close> before
  \<^verbatim>\<open>int\<close>, of which it is a subclass); \<^verbatim>\<open>bool\<close> of a string is
  its non-emptiness.\<close>

fun cast_mocked_value :: "'i pylib \<Rightarrow> pyval \<Rightarrow> string \<Rightarrow> error + pyval" where
  "cast_mocked_value L (PyBool b) mocked_value = Inr (PyBool (mocked_value \<noteq> []))"
| "cast_mocked_value L (PyInt n) mocked_value =
     (case py_int L mocked_value of
        None \<Rightarrow> Inl ValueError
      | Some k \<Rightarrow> Inr (PyInt k))"
| "cast_mocked_value L (PyFloat x) mocked_value =
     (case py_float L mocked_value of
        None \<Rightarrow> Inl ValueError
      | Some y \<Rightarrow> Inr (PyFloat y))"
| "cast_mocked_value L (PyDateTime d) mocked_value =
     (case dateparser_parse L mocked_value of
        None \<Rightarrow> Inl ValueError
      | Some t \<Rightarrow> Inr (PyDateTime (pendulum_instance L t)))"
| "cast_mocked_value L real_value mocked_value = Inr (PyStr mocked_value)"

text \<open>\<^verbatim>\<open>__getattr__\<close> (lines 26-61). \<^verbatim>\<open>os.environ\<close> is a map from keys to
  strings; \<^verbatim>\<open>env_key in os.environ\<close> is \<open>environ env_key \<noteq> None\<close>.\<close>

definition dunder_getattr ::
  "'i pylib \<Rightarrow> (string \<rightharpoonup> string) \<Rightarrow> 'i TaskRunContext option \<Rightarrow> string \<Rightarrow> error + pyval" where
  "dunder_getattr L environ task_run_ctx name =
     (let func = map_of (FIELDS L) name;
          env_key = env_key_of name
      in case func of
           Some f \<Rightarrow>
             (let real_value = f task_run_ctx
              in case environ env_key of
                   Some mocked_value \<Rightarrow> cast_mocked_value L real_value mocked_value
                 | None \<Rightarrow> Inr real_value)
         | None \<Rightarrow>
             (case environ env_key of
                Some mocked_value \<Rightarrow> Inr (PyStr mocked_value)
              | None \<Rightarrow> Inl (AttributeError name)))"

text \<open>\<^verbatim>\<open>__all__\<close> (line 23) and \<^verbatim>\<open>__dir__\<close> (lines 64-65). Python compares
  strings lexicographically by code point, which is the order of \<open>string\<close> here.\<close>

definition dunder_all :: "string list" where
  "dunder_all = [''id'', ''tags'', ''name'', ''parameters'', ''task_name'']"

definition dunder_dir :: "string list" where
  "dunder_dir = sort dunder_all"

text \<open>A library instance for evaluating examples: identifiers are already text, and
  the parsers reject their input, as Python's do on \<^verbatim>\<open>"abc"\<close>.\<close>

definition reject_lib :: "string pylib" where
  "reject_lib =
     \<lparr>py_str = (\<lambda>u. u),
      py_int = (\<lambda>s. None),
      py_float = (\<lambda>s. None),
      dateparser_parse = (\<lambda>s. None),
      pendulum_instance = (\<lambda>d. d)\<rparr>"

definition example_ctx :: "string TaskRunContext" where
  "example_ctx =
     \<lparr>task_run = \<lparr>tr_id = ''0b1e7f3c'', tr_tags = [''etl'', ''nightly''], tr_name = ''load-3''\<rparr>,
      task = \<lparr>t_name = PyStr ''load''\<rparr>,
      parameters = [(''n'', PyInt 3), (''dry_run'', PyBool True)]\<rparr>"

section \<open>Properties of the registry and of the dispatch\<close>

lemma map_of_FIELDS:
  "map_of (FIELDS L) name =
     (if name = ''id'' then Some (get_id L)
      else if name = ''tags'' then Some get_tags
      else if name = ''name'' then Some get_name
      else if name = ''parameters'' then Some get_parameters
      else if name = ''task_name'' then Some get_task_name
      else None)"
  by (simp add: FIELDS_def)

lemma FIELDS_cases:
  assumes "map_of (FIELDS L) name = Some f"
  shows "(name = ''id'' \<and> f = get_id L) \<or> (name = ''tags'' \<and> f = get_tags) \<or>
         (name = ''name'' \<and> f = get_name) \<or>
         (name = ''parameters'' \<and> f = get_parameters) \<or>
         (name = ''task_name'' \<and> f = get_task_name)"
  using assms by (auto simp: map_of_FIELDS split: if_splits)

lemma registered_iff: "map_of (FIELDS L) name \<noteq> None \<longleftrightarrow> name \<in> set dunder_all"
  by (simp add: map_of_FIELDS dunder_all_def)

lemma getattr_registered:
  "map_of (FIELDS L) name = Some f \<Longrightarrow>
   dunder_getattr L environ ctx name =
     (case environ (env_key_of name) of
        Some s \<Rightarrow> cast_mocked_value L (f ctx) s
      | None \<Rightarrow> Inr (f ctx))"
  by (simp add: dunder_getattr_def Let_def)

lemma getattr_unregistered:
  "map_of (FIELDS L) name = None \<Longrightarrow>
   dunder_getattr L environ ctx name =
     (case environ (env_key_of name) of
        Some s \<Rightarrow> Inr (PyStr s)
      | None \<Rightarrow> Inl (AttributeError name))"
  by (simp add: dunder_getattr_def)

lemma env_key_id: "env_key_of ''id'' = ''PREFECT__RUNTIME__TASK_RUN__ID''"
  by code_simp

lemma env_key_tags: "env_key_of ''tags'' = ''PREFECT__RUNTIME__TASK_RUN__TAGS''"
  by code_simp

lemma env_key_name: "env_key_of ''name'' = ''PREFECT__RUNTIME__TASK_RUN__NAME''"
  by code_simp

lemma env_key_parameters:
  "env_key_of ''parameters'' = ''PREFECT__RUNTIME__TASK_RUN__PARAMETERS''"
  by code_simp

lemma env_key_task_name:
  "env_key_of ''task_name'' = ''PREFECT__RUNTIME__TASK_RUN__TASK_NAME''"
  by code_simp

lemma env_key_not_a_real_attr:
  "env_key_of ''not_a_real_attr'' = ''PREFECT__RUNTIME__TASK_RUN__NOT_A_REAL_ATTR''"
  by code_simp

text \<open>What a real value can be: without a context, and for every name but
  \<^verbatim>\<open>task_name\<close> with one, a resolver returns \<^verbatim>\<open>None\<close>, a string, a list
  or a dict. \<^verbatim>\<open>get_task_name\<close> hands over the name of the task, whatever it is.\<close>

lemma resolver_value_kind:
  assumes "map_of (FIELDS L) name = Some f"
    and "name \<noteq> ''task_name'' \<or> ctx = None"
  shows "f ctx = PyNone \<or> (\<exists>s. f ctx = PyStr s) \<or> (\<exists>xs. f ctx = PyList xs) \<or>
         (\<exists>m. f ctx = PyDict m)"
proof (cases ctx)
  case None
  with FIELDS_cases [OF assms(1)] show ?thesis
    by (auto simp: get_id_def get_tags_def get_name_def get_task_name_def
        get_parameters_def)
next
  case (Some c)
  with assms(2) have "name \<noteq> ''task_name''" by simp
  with FIELDS_cases [OF assms(1)] Some show ?thesis
    by (auto simp: get_id_def get_tags_def get_name_def get_parameters_def)
qed

lemma task_name_value:
  "get_task_name (Some c) = t_name (task c)"
  by (simp add: get_task_name_def)


lemma cast_uncoerced:
  assumes "v = PyNone \<or> (\<exists>s. v = PyStr s) \<or> (\<exists>xs. v = PyList xs) \<or> (\<exists>m. v = PyDict m)"
  shows "cast_mocked_value L v mocked_value = Inr (PyStr mocked_value)"
  using assms by auto

lemma cast_fails_iff:
  "cast_mocked_value L v s = Inl e \<longleftrightarrow>
     e = ValueError \<and>
     (case v of
        PyInt n \<Rightarrow> py_int L s = None
      | PyFloat x \<Rightarrow> py_float L s = None
      | PyDateTime d \<Rightarrow> dateparser_parse L s = None
      | _ \<Rightarrow> False)"
  by (cases v) (auto split: option.splits)

section \<open>Neutral defaults and context values\<close>

text \<open>
  C1. For each of the registered names \<^verbatim>\<open>name\<close>, \<^verbatim>\<open>tags\<close>,
  \<^verbatim>\<open>parameters\<close> and \<^verbatim>\<open>task_name\<close>: with no override in the environment
  and no active context, attribute access returns the neutral default, which is the empty
  list for \<^verbatim>\<open>tags\<close>, the empty dict for \<^verbatim>\<open>parameters\<close> and
  \<^verbatim>\<open>None\<close> for \<^verbatim>\<open>name\<close> and \<^verbatim>\<open>task_name\<close>.
\<close>

theorem getattr_absent_context_default:
  assumes "name \<in> {''name'', ''tags'', ''parameters'', ''task_name''}"
    and "environ (env_key_of name) = None"
  shows "dunder_getattr L environ None name =
           Inr (if name = ''tags'' then PyList []
                else if name = ''parameters'' then PyDict []
                else PyNone)"
proof -
  from assms(1) consider "name = ''name''" | "name = ''tags''"
    | "name = ''parameters''" | "name = ''task_name''"
    by auto
  then show ?thesis
  proof cases
    case 1
    then have "map_of (FIELDS L) name = Some get_name"
      by (simp add: map_of_FIELDS)
    from getattr_registered [OF this] assms(2) 1 show ?thesis
      by (simp add: get_name_def)
  next
    case 2
    then have "map_of (FIELDS L) name = Some get_tags"
      by (simp add: map_of_FIELDS)
    from getattr_registered [OF this] assms(2) 2 show ?thesis
      by (simp add: get_tags_def)
  next
    case 3
    then have "map_of (FIELDS L) name = Some get_parameters"
      by (simp add: map_of_FIELDS)
    from getattr_registered [OF this] assms(2) 3 show ?thesis
      by (simp add: get_parameters_def)
  next
    case 4
    then have "map_of (FIELDS L) name = Some get_task_name"
      by (simp add: map_of_FIELDS)
    from getattr_registered [OF this] assms(2) 4 show ?thesis
      by (simp add: get_task_name_def)
  qed
qed

theorem getattr_absent_context_default_witness:
  "''tags'' \<in> {''name'', ''tags'', ''parameters'', ''task_name''} \<and>
   (Map.empty :: string \<rightharpoonup> string) (env_key_of ''tags'') = None \<and>
   dunder_getattr reject_lib Map.empty None ''tags'' = Inr (PyList []) \<and>
   dunder_getattr reject_lib Map.empty None ''parameters'' = Inr (PyDict []) \<and>
   dunder_getattr reject_lib Map.empty None ''name'' = Inr PyNone \<and>
   dunder_getattr reject_lib Map.empty None ''task_name'' = Inr PyNone"
  using getattr_absent_context_default [of "''tags''" Map.empty reject_lib]
    getattr_absent_context_default [of "''parameters''" Map.empty reject_lib]
    getattr_absent_context_default [of "''name''" Map.empty reject_lib]
    getattr_absent_context_default [of "''task_name''" Map.empty reject_lib]
  by simp

text \<open>
  C2. For every registered name, with an active context and no override in the
  environment, attribute access returns what the context holds, unmodified: for
  \<^verbatim>\<open>id\<close> the task run's identifier passed through \<^verbatim>\<open>str\<close>, for
  \<^verbatim>\<open>tags\<close> and \<^verbatim>\<open>name\<close> the task run's tags and name, for
  \<^verbatim>\<open>parameters\<close> the context's parameters, and for \<^verbatim>\<open>task_name\<close> the
  name of the context's task.
\<close>

theorem getattr_active_context_value:
  assumes "name \<in> set dunder_all"
    and "environ (env_key_of name) = None"
  shows "dunder_getattr L environ (Some c) name =
           Inr (if name = ''id'' then PyStr (py_str L (tr_id (task_run c)))
                else if name = ''tags'' then PyList (map PyStr (tr_tags (task_run c)))
                else if name = ''name'' then PyStr (tr_name (task_run c))
                else if name = ''parameters'' then PyDict (parameters c)
                else t_name (task c))"
proof -
  from assms(1) consider "name = ''id''" | "name = ''tags''" | "name = ''name''"
    | "name = ''parameters''" | "name = ''task_name''"
    by (auto simp: dunder_all_def)
  then show ?thesis
  proof cases
    case 1
    then have "map_of (FIELDS L) name = Some (get_id L)"
      by (simp add: map_of_FIELDS)
    from getattr_registered [OF this] assms(2) 1 show ?thesis
      by (simp add: get_id_def)
  next
    case 2
    then have "map_of (FIELDS L) name = Some get_tags"
      by (simp add: map_of_FIELDS)
    from getattr_registered [OF this] assms(2) 2 show ?thesis
      by (simp add: get_tags_def)
  next
    case 3
    then have "map_of (FIELDS L) name = Some get_name"
      by (simp add: map_of_FIELDS)
    from getattr_registered [OF this] assms(2) 3 show ?thesis
      by (simp add: get_name_def)
  next
    case 4
    then have "map_of (FIELDS L) name = Some get_parameters"
      by (simp add: map_of_FIELDS)
    from getattr_registered [OF this] assms(2) 4 show ?thesis
      by (simp add: get_parameters_def)
  next
    case 5
    then have "map_of (FIELDS L) name = Some get_task_name"
      by (simp add: map_of_FIELDS)
    from getattr_registered [OF this] assms(2) 5 show ?thesis
      by (simp add: get_task_name_def)
  qed
qed

theorem getattr_active_context_value_witness:
  "''id'' \<in> set dunder_all \<and>
   (Map.empty :: string \<rightharpoonup> string) (env_key_of ''id'') = None \<and>
   dunder_getattr reject_lib Map.empty (Some example_ctx) ''id'' = Inr (PyStr ''0b1e7f3c'') \<and>
   dunder_getattr reject_lib Map.empty (Some example_ctx) ''tags'' =
     Inr (PyList [PyStr ''etl'', PyStr ''nightly'']) \<and>
   dunder_getattr reject_lib Map.empty (Some example_ctx) ''name'' = Inr (PyStr ''load-3'') \<and>
   dunder_getattr reject_lib Map.empty (Some example_ctx) ''parameters'' =
     Inr (PyDict [(''n'', PyInt 3), (''dry_run'', PyBool True)]) \<and>
   dunder_getattr reject_lib Map.empty (Some example_ctx) ''task_name'' = Inr (PyStr ''load'')"
  using getattr_active_context_value [of "''id''" Map.empty reject_lib example_ctx]
    getattr_active_context_value [of "''tags''" Map.empty reject_lib example_ctx]
    getattr_active_context_value [of "''name''" Map.empty reject_lib example_ctx]
    getattr_active_context_value [of "''parameters''" Map.empty reject_lib example_ctx]
    getattr_active_context_value [of "''task_name''" Map.empty reject_lib example_ctx]
  by (simp add: dunder_all_def reject_lib_def example_ctx_def)

text \<open>
  C7. With no active context and no override for \<^verbatim>\<open>id\<close>, access to
  \<^verbatim>\<open>id\<close> returns \<^verbatim>\<open>None\<close>: \<^verbatim>\<open>get_id\<close> has no branch for the
  absent context and falls off its end, where the other four resolvers return an explicit
  default.
\<close>

theorem getattr_id_absent_context:
  assumes "environ (env_key_of ''id'') = None"
  shows "get_id L None = PyNone \<and> dunder_getattr L environ None ''id'' = Inr PyNone"
proof -
  have "map_of (FIELDS L) ''id'' = Some (get_id L)"
    by (simp add: map_of_FIELDS)
  from getattr_registered [OF this] assms show ?thesis
    by (simp add: get_id_def)
qed

theorem getattr_id_absent_context_witness:
  "(Map.empty :: string \<rightharpoonup> string) (env_key_of ''id'') = None \<and>
   dunder_getattr reject_lib Map.empty None ''id'' = Inr PyNone"
  using getattr_id_absent_context [of Map.empty reject_lib]
  by simp

section \<open>Overrides\<close>

text \<open>
  C3. When the real value of a registered attribute is a list or a dict, as it is for
  \<^verbatim>\<open>tags\<close> and \<^verbatim>\<open>parameters\<close>, an override in the environment is
  returned as the raw string, with no structural coercion. In particular the override
  \<^verbatim>\<open>"42"\<close> for \<^verbatim>\<open>parameters\<close>, with an active context whose parameters
  are a dict, comes back as the string \<^verbatim>\<open>"42"\<close>.
\<close>

theorem getattr_compound_override_raw:
  "(map_of (FIELDS L) name = Some f \<and> (f ctx = PyList xs \<or> f ctx = PyDict m) \<and>
      environ (env_key_of name) = Some s
      \<longrightarrow> dunder_getattr L environ ctx name = Inr (PyStr s)) \<and>
   (environ (env_key_of ''tags'') = Some s
      \<longrightarrow> (\<exists>ys. get_tags ctx = PyList ys) \<and>
          dunder_getattr L environ ctx ''tags'' = Inr (PyStr s)) \<and>
   (environ (env_key_of ''parameters'') = Some s
      \<longrightarrow> (\<exists>kvs. get_parameters ctx = PyDict kvs) \<and>
          dunder_getattr L environ ctx ''parameters'' = Inr (PyStr s)) \<and>
   (environ ''PREFECT__RUNTIME__TASK_RUN__PARAMETERS'' = Some ''42''
      \<longrightarrow> dunder_getattr L environ (Some c) ''parameters'' = Inr (PyStr ''42''))"
proof -
  have general: "dunder_getattr L environ ctx name = Inr (PyStr s)"
    if "map_of (FIELDS L) name = Some f" and "f ctx = PyList xs \<or> f ctx = PyDict m"
      and "environ (env_key_of name) = Some s"
  proof -
    from that(2) have "cast_mocked_value L (f ctx) s = Inr (PyStr s)"
      by auto
    with getattr_registered [OF that(1)] that(3) show ?thesis
      by simp
  qed
  have tags_kind: "\<exists>ys. get_tags ctx = PyList ys" for ctx :: "'a TaskRunContext option"
    by (cases ctx) (simp_all add: get_tags_def)
  have params_kind: "\<exists>kvs. get_parameters ctx = PyDict kvs"
    for ctx :: "'a TaskRunContext option"
    by (cases ctx) (simp_all add: get_parameters_def)
  have tags: "dunder_getattr L environ ctx ''tags'' = Inr (PyStr s)"
    if "environ (env_key_of ''tags'') = Some s"
  proof -
    have reg: "map_of (FIELDS L) ''tags'' = Some get_tags"
      by (simp add: map_of_FIELDS)
    from tags_kind [of ctx] obtain ys where "get_tags ctx = PyList ys" ..
    with getattr_registered [OF reg] that show ?thesis
      by simp
  qed
  have params: "dunder_getattr L environ ctx ''parameters'' = Inr (PyStr s)"
    if "environ (env_key_of ''parameters'') = Some s"
    for ctx :: "'a TaskRunContext option" and s
  proof -
    have reg: "map_of (FIELDS L) ''parameters'' = Some get_parameters"
      by (simp add: map_of_FIELDS)
    from params_kind [of ctx] obtain kvs where "get_parameters ctx = PyDict kvs" ..
    with getattr_registered [OF reg] that show ?thesis
      by simp
  qed
  have forty_two: "dunder_getattr L environ (Some c) ''parameters'' = Inr (PyStr ''42'')"
    if "environ ''PREFECT__RUNTIME__TASK_RUN__PARAMETERS'' = Some ''42''"
    using params [of "''42''" "Some c"] that by (simp only: env_key_parameters)
  from general tags tags_kind params params_kind forty_two show ?thesis
    by blast
qed

theorem getattr_compound_override_raw_witness:
  "map_of (FIELDS reject_lib) ''tags'' = Some get_tags \<and>
   get_tags (Some example_ctx) = PyList [PyStr ''etl'', PyStr ''nightly''] \<and>
   [env_key_of ''tags'' \<mapsto> ''a,b''] (env_key_of ''tags'') = Some ''a,b'' \<and>
   dunder_getattr reject_lib [env_key_of ''tags'' \<mapsto> ''a,b''] (Some example_ctx) ''tags'' =
     Inr (PyStr ''a,b'') \<and>
   [''PREFECT__RUNTIME__TASK_RUN__PARAMETERS'' \<mapsto> ''42'']
     ''PREFECT__RUNTIME__TASK_RUN__PARAMETERS'' = Some ''42'' \<and>
   get_parameters (Some example_ctx) = PyDict [(''n'', PyInt 3), (''dry_run'', PyBool True)] \<and>
   dunder_getattr reject_lib [''PREFECT__RUNTIME__TASK_RUN__PARAMETERS'' \<mapsto> ''42'']
     (Some example_ctx) ''parameters'' = Inr (PyStr ''42'')"
  using getattr_compound_override_raw
    [of reject_lib "''tags''" get_tags "Some example_ctx"
        "[PyStr ''etl'', PyStr ''nightly'']" "[]"
        "[env_key_of ''tags'' \<mapsto> ''a,b'']" "''a,b''"]
    getattr_compound_override_raw
    [of reject_lib "''tags''" get_tags "Some example_ctx" "[]" "[]"
        "[''PREFECT__RUNTIME__TASK_RUN__PARAMETERS'' \<mapsto> ''42'']" "''42''" example_ctx]
  by (simp add: map_of_FIELDS get_tags_def get_parameters_def example_ctx_def)

text \<open>
  C4. Access to a name that is not in the registry, with no override in the environment
  for it, raises \<^verbatim>\<open>AttributeError\<close> for that name.
\<close>

theorem getattr_unknown_raises:
  assumes "map_of (FIELDS L) name = None"
    and "environ (env_key_of name) = None"
  shows "dunder_getattr L environ ctx name = Inl (AttributeError name)"
  using getattr_unregistered [OF assms(1)] assms(2) by simp

theorem getattr_unknown_raises_witness:
  "map_of (FIELDS reject_lib) ''not_a_real_attr'' = None \<and>
   (Map.empty :: string \<rightharpoonup> string) (env_key_of ''not_a_real_attr'') = None \<and>
   dunder_getattr reject_lib Map.empty (Some example_ctx) ''not_a_real_attr'' =
     Inl (AttributeError ''not_a_real_attr'') \<and>
   dunder_getattr reject_lib Map.empty None ''not_a_real_attr'' =
     Inl (AttributeError ''not_a_real_attr'')"
  using getattr_unknown_raises [of reject_lib "''not_a_real_attr''" Map.empty "Some example_ctx"]
    getattr_unknown_raises [of reject_lib "''not_a_real_attr''" Map.empty None]
  by (simp add: map_of_FIELDS)

text \<open>
  C5. Access to a name that is not in the registry, with an override in the environment
  for it, returns the override string as it is; no coercion is attempted.
\<close>

theorem getattr_unknown_override_raw:
  assumes "map_of (FIELDS L) name = None"
    and "environ (env_key_of name) = Some s"
  shows "dunder_getattr L environ ctx name = Inr (PyStr s)"
  using getattr_unregistered [OF assms(1)] assms(2) by simp

theorem getattr_unknown_override_raw_witness:
  "map_of (FIELDS reject_lib) ''not_a_real_attr'' = None \<and>
   [''PREFECT__RUNTIME__TASK_RUN__NOT_A_REAL_ATTR'' \<mapsto> ''x'']
     (env_key_of ''not_a_real_attr'') = Some ''x'' \<and>
   dunder_getattr reject_lib [''PREFECT__RUNTIME__TASK_RUN__NOT_A_REAL_ATTR'' \<mapsto> ''x'']
     None ''not_a_real_attr'' = Inr (PyStr ''x'')"
  using getattr_unknown_override_raw
    [of reject_lib "''not_a_real_attr''"
        "[''PREFECT__RUNTIME__TASK_RUN__NOT_A_REAL_ATTR'' \<mapsto> ''x'']" "''x''" None]
  by (simp add: map_of_FIELDS env_key_not_a_real_attr)

text \<open>
  C8. When the real value of a registered attribute is a boolean, an override is cast by
  the truthiness of its text: every non-empty override, the text \<^verbatim>\<open>"false"\<close>
  included, is returned as \<^verbatim>\<open>True\<close>, and the empty override alone as
  \<^verbatim>\<open>False\<close>, so no non-empty text stands for false. The case arises for
  \<^verbatim>\<open>task_name\<close> when the task's name is a boolean.
\<close>

theorem getattr_bool_override_truthiness:
  assumes "map_of (FIELDS L) name = Some f"
    and "f ctx = PyBool b"
    and "environ (env_key_of name) = Some s"
  shows "dunder_getattr L environ ctx name = Inr (PyBool (s \<noteq> [])) \<and>
         (s \<noteq> [] \<longrightarrow> dunder_getattr L environ ctx name = Inr (PyBool True)) \<and>
         (s = ''false'' \<longrightarrow> dunder_getattr L environ ctx name = Inr (PyBool True)) \<and>
         (dunder_getattr L environ ctx name = Inr (PyBool False) \<longleftrightarrow> s = [])"
proof -
  have "dunder_getattr L environ ctx name = cast_mocked_value L (PyBool b) s"
    using getattr_registered [OF assms(1), of environ ctx] assms(2,3) by simp
  then have val: "dunder_getattr L environ ctx name = Inr (PyBool (s \<noteq> []))"
    by simp
  then show ?thesis by auto
qed

theorem getattr_bool_override_truthiness_witness:
  "map_of (FIELDS reject_lib) ''task_name'' = Some get_task_name \<and>
   get_task_name (Some (example_ctx\<lparr>task := \<lparr>t_name = PyBool False\<rparr>\<rparr>)) = PyBool False \<and>
   [''PREFECT__RUNTIME__TASK_RUN__TASK_NAME'' \<mapsto> ''false'']
     (env_key_of ''task_name'') = Some ''false'' \<and>
   dunder_getattr reject_lib [''PREFECT__RUNTIME__TASK_RUN__TASK_NAME'' \<mapsto> ''false'']
     (Some (example_ctx\<lparr>task := \<lparr>t_name = PyBool False\<rparr>\<rparr>)) ''task_name'' =
     Inr (PyBool True) \<and>
   dunder_getattr reject_lib [''PREFECT__RUNTIME__TASK_RUN__TASK_NAME'' \<mapsto> []]
     (Some (example_ctx\<lparr>task := \<lparr>t_name = PyBool True\<rparr>\<rparr>)) ''task_name'' =
     Inr (PyBool False)"
  using getattr_bool_override_truthiness
    [of reject_lib "''task_name''" get_task_name
        "Some (example_ctx\<lparr>task := \<lparr>t_name = PyBool False\<rparr>\<rparr>)" False
        "[''PREFECT__RUNTIME__TASK_RUN__TASK_NAME'' \<mapsto> ''false'']" "''false''"]
    getattr_bool_override_truthiness
    [of reject_lib "''task_name''" get_task_name
        "Some (example_ctx\<lparr>task := \<lparr>t_name = PyBool True\<rparr>\<rparr>)" True
        "[''PREFECT__RUNTIME__TASK_RUN__TASK_NAME'' \<mapsto> []]" "[]"]
  by (simp add: map_of_FIELDS task_name_value env_key_task_name)




section \<open>Failures\<close>

text \<open>
  C6. Attribute access fails in two ways only: with \<^verbatim>\<open>AttributeError\<close> for the
  name, when the name is not registered and has no override; and with the conversion
  error, when the name is registered, an override is set, the real value is an integer, a
  float or a date-time, and the override text does not parse as one. An absent context is
  never the cause of a failure: without a context the only failure is the one for an
  unknown name, and it occurs in the same way with any context.
\<close>

theorem getattr_failure_conditions:
  "(dunder_getattr L environ ctx name = Inl e \<longleftrightarrow>
      (map_of (FIELDS L) name = None \<and> environ (env_key_of name) = None \<and>
       e = AttributeError name) \<or>
      (\<exists>f s. map_of (FIELDS L) name = Some f \<and> environ (env_key_of name) = Some s \<and>
             e = ValueError \<and>
             (case f ctx of
                PyInt n \<Rightarrow> py_int L s = None
              | PyFloat x \<Rightarrow> py_float L s = None
              | PyDateTime d \<Rightarrow> dateparser_parse L s = None
              | _ \<Rightarrow> False))) \<and>
   (dunder_getattr L environ None name = Inl e \<longrightarrow>
      map_of (FIELDS L) name = None \<and> environ (env_key_of name) = None \<and>
      e = AttributeError name \<and> dunder_getattr L environ ctx' name = Inl e)"
proof (intro conjI)
  show "dunder_getattr L environ ctx name = Inl e \<longleftrightarrow>
      (map_of (FIELDS L) name = None \<and> environ (env_key_of name) = None \<and>
       e = AttributeError name) \<or>
      (\<exists>f s. map_of (FIELDS L) name = Some f \<and> environ (env_key_of name) = Some s \<and>
             e = ValueError \<and>
             (case f ctx of
                PyInt n \<Rightarrow> py_int L s = None
              | PyFloat x \<Rightarrow> py_float L s = None
              | PyDateTime d \<Rightarrow> dateparser_parse L s = None
              | _ \<Rightarrow> False))"
  proof (cases "map_of (FIELDS L) name")
    case None
    from getattr_unregistered [OF None, of environ ctx] None show ?thesis
      by (cases "environ (env_key_of name)") auto
  next
    case (Some f)
    show ?thesis
    proof (cases "environ (env_key_of name)")
      case None
      with getattr_registered [OF Some, of environ ctx] Some show ?thesis
        by simp
    next
      case ov: (Some s)
      with getattr_registered [OF Some, of environ ctx]
      have "dunder_getattr L environ ctx name = cast_mocked_value L (f ctx) s"
        by simp
      with Some ov show ?thesis
        by (simp add: cast_fails_iff)
    qed
  qed
next
  show "dunder_getattr L environ None name = Inl e \<longrightarrow>
      map_of (FIELDS L) name = None \<and> environ (env_key_of name) = None \<and>
      e = AttributeError name \<and> dunder_getattr L environ ctx' name = Inl e"
  proof (cases "map_of (FIELDS L) name")
    case None
    from getattr_unregistered [OF None, of environ None]
      getattr_unregistered [OF None, of environ ctx'] None
    show ?thesis
      by (cases "environ (env_key_of name)") auto
  next
    case (Some f)
    have "cast_mocked_value L (f None) s = Inr (PyStr s)" for s
      by (rule cast_uncoerced) (rule resolver_value_kind [OF Some], simp)
    with getattr_registered [OF Some, of environ None] show ?thesis
      by (cases "environ (env_key_of name)") simp_all
  qed
qed

theorem getattr_failure_conditions_witness:
  "map_of (FIELDS reject_lib) ''not_a_real_attr'' = None \<and>
   (Map.empty :: string \<rightharpoonup> string) (env_key_of ''not_a_real_attr'') = None \<and>
   dunder_getattr reject_lib Map.empty None ''not_a_real_attr'' =
     Inl (AttributeError ''not_a_real_attr'') \<and>
   dunder_getattr reject_lib Map.empty (Some example_ctx) ''not_a_real_attr'' =
     Inl (AttributeError ''not_a_real_attr'') \<and>
   map_of (FIELDS reject_lib) ''task_name'' = Some get_task_name \<and>
   get_task_name (Some (example_ctx\<lparr>task := \<lparr>t_name = PyInt 7\<rparr>\<rparr>)) = PyInt 7 \<and>
   py_int reject_lib ''abc'' = None \<and>
   dunder_getattr reject_lib [''PREFECT__RUNTIME__TASK_RUN__TASK_NAME'' \<mapsto> ''abc'']
     (Some (example_ctx\<lparr>task := \<lparr>t_name = PyInt 7\<rparr>\<rparr>)) ''task_name'' = Inl ValueError"
proof -
  note t = getattr_failure_conditions
    [of reject_lib Map.empty None "''not_a_real_attr''" "AttributeError ''not_a_real_attr''"
        "Some example_ctx"]
  note u = getattr_failure_conditions
    [of reject_lib "[''PREFECT__RUNTIME__TASK_RUN__TASK_NAME'' \<mapsto> ''abc'']"
        "Some (example_ctx\<lparr>task := \<lparr>t_name = PyInt 7\<rparr>\<rparr>)" "''task_name''" ValueError]
  have unreg: "map_of (FIELDS reject_lib) ''not_a_real_attr'' = None"
    by (simp add: map_of_FIELDS)
  have reg: "map_of (FIELDS reject_lib) ''task_name'' = Some get_task_name"
    by (simp add: map_of_FIELDS)
  have val: "get_task_name (Some (example_ctx\<lparr>task := \<lparr>t_name = PyInt 7\<rparr>\<rparr>)) = PyInt 7"
    by (simp add: task_name_value)
  have rej: "py_int reject_lib ''abc'' = None"
    by (simp add: reject_lib_def)
  from t unreg have a: "dunder_getattr reject_lib Map.empty None ''not_a_real_attr'' =
      Inl (AttributeError ''not_a_real_attr'')"
    by simp
  with t have b: "dunder_getattr reject_lib Map.empty (Some example_ctx) ''not_a_real_attr'' =
      Inl (AttributeError ''not_a_real_attr'')"
    by blast
  from u reg val rej have c:
    "dunder_getattr reject_lib [''PREFECT__RUNTIME__TASK_RUN__TASK_NAME'' \<mapsto> ''abc'']
       (Some (example_ctx\<lparr>task := \<lparr>t_name = PyInt 7\<rparr>\<rparr>)) ''task_name'' = Inl ValueError"
    by (simp add: env_key_task_name)
  from unreg reg val rej a b c show ?thesis by simp
qed

section \<open>Listing the names\<close>

text \<open>
  C9. \<^verbatim>\<open>__dir__\<close> takes no context and no environment, and always returns the
  same list: the keys of the registry, \<^verbatim>\<open>id\<close>, \<^verbatim>\<open>name\<close>,
  \<^verbatim>\<open>parameters\<close>, \<^verbatim>\<open>tags\<close>, \<^verbatim>\<open>task_name\<close>, in lexicographic
  order, each once.
\<close>

theorem dir_sorted_registry_keys:
  "dunder_dir = [''id'', ''name'', ''parameters'', ''tags'', ''task_name''] \<and>
   set dunder_dir = fst ` set (FIELDS L) \<and>
   sorted dunder_dir \<and> distinct dunder_dir"
proof -
  have val: "dunder_dir = [''id'', ''name'', ''parameters'', ''tags'', ''task_name'']"
    by (simp add: dunder_dir_def dunder_all_def)
  have "set dunder_dir = fst ` set (FIELDS L)"
    by (auto simp: dunder_dir_def dunder_all_def FIELDS_def)
  moreover have "sorted dunder_dir"
    by (simp add: dunder_dir_def)
  moreover have "distinct dunder_dir"
    by (simp add: dunder_dir_def dunder_all_def)
  ultimately show ?thesis using val by simp
qed

end
